theory Spec2Isabelle
  imports Main "HOL-Library.Sublist"
begin

section \<open>PyWizardLite: exceptions and results\<close>

text \<open>
  The exceptions that the code of \<^verbatim>\<open>pywizardlite.py\<close> raises itself or provokes in the
  interpreter, and \<open>Other c\<close> for an exception of any other class \<open>c\<close> raised by an external
  collaborator (the Selenium driver, \<^verbatim>\<open>requests\<close>, \<^verbatim>\<open>zipfile\<close>, \<^verbatim>\<open>os\<close>).
  \<open>ElementNotFound\<close> is the only exception class the module defines; it carries its message.
  \<open>SystemExit\<close> carries the exit code given to \<^verbatim>\<open>sys.exit\<close>.
  A function that may raise returns \<open>error + 'a\<close>, with \<open>Inl\<close> for the raised exception.
\<close>

datatype error =
    ElementNotFound string
  | KeyError string
  | UnboundLocalError string
  | AttributeError
  | TypeError
  | SystemExit int
  | Other string

fun exn_class :: "error \<Rightarrow> string" where
  "exn_class (ElementNotFound m) = ''ElementNotFound''"
| "exn_class (KeyError k) = ''KeyError''"
| "exn_class (UnboundLocalError v) = ''UnboundLocalError''"
| "exn_class AttributeError = ''AttributeError''"
| "exn_class TypeError = ''TypeError''"
| "exn_class (SystemExit c) = ''SystemExit''"
| "exn_class (Other c) = c"

section \<open>The bounded wait: \<^verbatim>\<open>wait_until_element_is_visible\<close>\<close>

subsection \<open>The driver, the clock and the trace of effects\<close>

text \<open>Selenium's locator strategies \<^verbatim>\<open>By.CLASS_NAME\<close>, ..., \<^verbatim>\<open>By.XPATH\<close>.\<close>

datatype By = CLASS_NAME | CSS_SELECTOR | ID | LINK_TEXT | NAME | PARTIAL_LINK_TEXT | TAG_NAME | XPATH

text \<open>
  \<^verbatim>\<open>element_dict\<close>, the dictionary built at the start of the function, in the order of the
  source. \<^verbatim>\<open>element_dict[element_by]\<close> raises \<open>KeyError\<close> on a key that is not there.
\<close>

definition element_dict :: "(string \<times> By) list" where
  "element_dict =
     [(''ClassName'', CLASS_NAME),
      (''CSSSelector'', CSS_SELECTOR),
      (''ID'', ID),
      (''LinkText'', LINK_TEXT),
      (''Name'', NAME),
      (''PartialLinkText'', PARTIAL_LINK_TEXT),
      (''TagName'', TAG_NAME),
      (''XPath'', XPATH)]"

text \<open>
  The driver is an external collaborator. Within one call of the wait, its
  \<^verbatim>\<open>find_element\<close> is a function of the number of calls made before (0 for the first
  attempt), of the strategy and of the target: it raises (\<open>Inl\<close>) or returns an element or
  \<^verbatim>\<open>None\<close> (\<open>Inr\<close>), and it takes some time, in milliseconds.
\<close>

type_synonym web_element = nat

type_synonym driver = "nat \<Rightarrow> By \<Rightarrow> string \<Rightarrow> (error + web_element option) \<times> nat"

text \<open>
  What the wait does to the world: it reads the clock, calls the driver and sleeps. The
  clock \<open>now\<close> is in milliseconds; \<open>calls\<close> counts the calls of \<^verbatim>\<open>find_element\<close>;
  \<open>trace\<close> lists the driver calls and the sleeps (in seconds) in the order they happen.
  A sleep lasts the time asked for, a call of the driver lasts the time the driver takes, and
  nothing else takes time.
\<close>

datatype event = Find_element By string | Sleep nat

record world =
  now :: int
  calls :: nat
  trace :: "event list"

definition time_time :: "world \<Rightarrow> int" where
  "time_time s = now s"

definition sleep :: "nat \<Rightarrow> world \<Rightarrow> world" where
  "sleep secs s = s\<lparr>now := now s + 1000 * int secs, trace := trace s @ [Sleep secs]\<rparr>"

definition find_element :: "driver \<Rightarrow> By \<Rightarrow> string \<Rightarrow> world \<Rightarrow> (error + web_element option) \<times> world" where
  "find_element drv b target s =
     (case drv (calls s) b target of
        (r, d) \<Rightarrow> (r, s\<lparr>now := now s + int d, calls := Suc (calls s),
                          trace := trace s @ [Find_element b target]\<rparr>))"

text \<open>
  \<^verbatim>\<open>int(end_time - start_time)\<close>: a difference of clock readings, here in milliseconds,
  truncated towards zero to whole seconds. The source subtracts two floating-point readings:
  its result is never above the exact one, and it is one second below it where the exact
  difference is a whole number of seconds that the two floats miss (2.3 - 1.3 is below 1).
  So the code goes on wherever the model does, and it can notice that the budget is spent one
  iteration after the model; a bound from above on that moment has to leave this iteration.
\<close>

definition py_int :: "int \<Rightarrow> int" where
  "py_int d = (if 0 \<le> d then d div 1000 else - ((- d) div 1000))"

subsection \<open>The loop\<close>

text \<open>
  The \<^verbatim>\<open>try\<close> block of one iteration. The local variable \<^verbatim>\<open>is_element_found\<close> is
  \<open>None\<close> while it is unbound. The subscript \<^verbatim>\<open>element_dict[element_by]\<close> is evaluated
  before the driver is called. \<^verbatim>\<open>except ElementNotFound\<close> catches the module's own
  exception class and nothing else; a returned \<^verbatim>\<open>None\<close> leaves the variable as it was.
\<close>

definition try_locate ::
  "driver \<Rightarrow> string \<Rightarrow> string \<Rightarrow> bool option \<Rightarrow> world \<Rightarrow> (error + bool option) \<times> world" where
  "try_locate drv element_by element is_element_found s =
     (case map_of element_dict element_by of
        None \<Rightarrow> (Inl (KeyError element_by), s)
      | Some b \<Rightarrow>
          (case find_element drv b element s of
             (Inl e, s') \<Rightarrow>
               (case e of
                  ElementNotFound m \<Rightarrow> (Inr (Some False), s')
                | _ \<Rightarrow> (Inl e, s'))
           | (Inr is_web_element_found, s') \<Rightarrow>
               (if is_web_element_found \<noteq> None then (Inr (Some True), s')
                else (Inr is_element_found, s'))))"

definition not_found_message :: "string \<Rightarrow> string" where
  "not_found_message element = ''The element - '' @ element @ '' not found within the limited time!''"

definition found_wait_time :: nat where
  "found_wait_time = 1"

function wait_loop ::
  "driver \<Rightarrow> string \<Rightarrow> string \<Rightarrow> int \<Rightarrow> int \<Rightarrow> bool option \<Rightarrow> world \<Rightarrow> (error + unit) \<times> world" where
  "wait_loop drv element_by element wait_time start_time is_element_found s =
     (let end_time = time_time s;
          total_time = py_int (end_time - start_time)
      in if total_time \<ge> wait_time
         then (Inl (ElementNotFound (not_found_message element)), s)
         else
           (case try_locate drv element_by element is_element_found s of
              (Inl e, s') \<Rightarrow> (Inl e, s')
            | (Inr None, s') \<Rightarrow> (Inl (UnboundLocalError ''is_element_found''), s')
            | (Inr (Some True), s') \<Rightarrow> (Inr (), sleep found_wait_time s')
            | (Inr (Some False), s') \<Rightarrow>
                wait_loop drv element_by element wait_time start_time (Some False) (sleep 1 s')))"
  by pat_completeness auto
termination
proof (relation "measure (\<lambda>(drv, element_by, element, wait_time, start_time, v, s).
                    nat (wait_time * 1000 - (now s - start_time)))", goal_cases)
  case 1
  show ?case by simp
next
  case (2 drv element_by element wait_time start_time v s end_time total_time r s' x v')
  from 2 have lt: "now s - start_time < wait_time * 1000"
    by (auto simp: py_int_def time_time_def split: if_splits)
  from 2 have "now s \<le> now s'"
    by (auto simp: try_locate_def find_element_def
             split: option.splits prod.splits sum.splits error.splits if_splits)
  with lt show ?case
    by (simp add: sleep_def)
qed

declare wait_loop.simps [simp del]

definition wait_until_element_is_visible ::
  "driver \<Rightarrow> string \<Rightarrow> string \<Rightarrow> int option \<Rightarrow> world \<Rightarrow> (error + unit) \<times> world" where
  "wait_until_element_is_visible drv element_by element default_time s =
     (let wait_time = (case default_time of None \<Rightarrow> 60 | Some t \<Rightarrow> t);
          start_time = time_time s
      in wait_loop drv element_by element wait_time start_time None s)"

subsection \<open>Driver stubs\<close>

text \<open>
  Two instantaneous drivers for concrete runs: one whose \<^verbatim>\<open>find_element\<close> raises the
  same exception at every call, and one that raises \<open>ElementNotFound\<close> until its \<open>k\<close>-th
  call, which returns the element \<open>w\<close>.
\<close>

definition always_raising :: "error \<Rightarrow> driver" where
  "always_raising e = (\<lambda>n b target. (Inl e, 0))"

definition succeeding_on_attempt :: "nat \<Rightarrow> web_element \<Rightarrow> driver" where
  "succeeding_on_attempt k w =
     (\<lambda>n b target. (if Suc n < k then Inl (ElementNotFound ''not there yet'') else Inr (Some w), 0))"

section \<open>The acquisition of the driver\<close>

subsection \<open>Text\<close>

text \<open>
  Text is a list of characters; a character is a code point below 256. \<^verbatim>\<open>str.strip()\<close>
  removes the whitespace of \<^verbatim>\<open>str.isspace\<close> at both ends: among these code points the
  tabulator to the carriage return, the four separators from 0x1C, the blank, the next line
  0x85 and the no-break space 0xA0. \<^verbatim>\<open>\d\<close> matches a decimal digit: among these code
  points the digits 0 to 9.
\<close>

definition py_isspace :: "char \<Rightarrow> bool" where
  "py_isspace c \<longleftrightarrow>
     c \<in> set [CHR 0x09, CHR 0x0A, CHR 0x0B, CHR 0x0C, CHR 0x0D,
                CHR 0x1C, CHR 0x1D, CHR 0x1E, CHR 0x1F, CHR 0x20, CHR 0x85, CHR 0xA0]"

definition py_strip :: "string \<Rightarrow> string" where
  "py_strip s = dropWhile py_isspace (rev (dropWhile py_isspace (rev s)))"

definition is_digit :: "char \<Rightarrow> bool" where
  "is_digit c \<longleftrightarrow> c \<in> set ''0123456789''"

fun join :: "string \<Rightarrow> string list \<Rightarrow> string" where
  "join sep [] = []"
| "join sep [x] = x"
| "join sep (x # y # ys) = x @ sep @ join sep (y # ys)"

abbreviation backslash :: char where
  "backslash \<equiv> CHR 0x5C"

abbreviation dquote :: char where
  "dquote \<equiv> CHR 0x22"

definition COMMANDS :: "string list" where
  "COMMANDS =
    [''(Get-Item -Path '' @ dquote # ''$env:LOCALAPPDATA'' @ backslash # ''Google'' @ backslash #
       ''Chrome'' @ backslash # ''Application'' @ backslash # ''chrome.exe'' @ dquote #
       '').VersionInfo.FileVersion'',
     ''(Get-Item -Path '' @ dquote # ''$env:PROGRAMFILES'' @ backslash # ''Google'' @ backslash #
       ''Chrome'' @ backslash # ''Application'' @ backslash # ''chrome.exe'' @ dquote #
       '').VersionInfo.FileVersion'',
     ''(Get-Item -Path '' @ dquote # ''$env:PROGRAMFILES (x86)'' @ backslash # ''Google'' @ backslash #
       ''Chrome'' @ backslash # ''Application'' @ backslash # ''chrome.exe'' @ dquote #
       '').VersionInfo.FileVersion'',
     ''(Get-ItemProperty -Path Registry::'' @ dquote # ''HKCU'' @ backslash # ''SOFTWARE'' @ backslash #
       ''Google'' @ backslash # ''Chrome'' @ backslash # ''BLBeacon'' @ dquote # '').version'',
     ''(Get-ItemProperty -Path Registry::'' @ dquote # ''HKLM'' @ backslash # ''SOFTWARE'' @ backslash #
       ''Wow6432Node'' @ backslash # ''Microsoft'' @ backslash # ''Windows'' @ backslash #
       ''CurrentVersion'' @ backslash # ''Uninstall'' @ backslash # ''Google Chrome'' @ dquote #
       '').version'']"

definition first_hit_template :: "string \<Rightarrow> string" where
  "first_hit_template expression = ''$tmp = '' @ expression @ ''; if ($tmp) {echo $tmp; Exit;};''"

definition construct_powershell_commands :: "string list \<Rightarrow> string" where
  "construct_powershell_commands commands =
     (let script = ''$ErrorActionPreference='silentlycontinue'; '' @
                   join '' '' (map first_hit_template commands)
      in ''powershell -NoProfile '' @ dquote # script @ [dquote])"

subsection \<open>The host and its capabilities\<close>

text \<open>
  An HTTP request as \<^verbatim>\<open>requests.get\<close> receives it, and its response. The proxies are the
  dictionary given as \<^verbatim>\<open>proxies\<close>, \<open>None\<close> when \<^verbatim>\<open>None\<close> is given; the timeout is in
  seconds.
\<close>

record request =
  req_url :: string
  req_proxies :: "(string \<times> string) list option"
  req_stream :: "bool option"
  req_timeout :: nat

record response =
  status_code :: nat
  resp_text :: string
  resp_content :: string

text \<open>
  The external collaborators, as functions: \<^verbatim>\<open>sys.platform\<close>; the value that a PowerShell
  expression has on the host, the empty text when it has none or fails (the script silences
  errors); the HTTP transport, which answers a request or raises; the archive reader, which
  gives the members of a zip archive by name, or \<open>None\<close> for bytes that are no archive.
\<close>

record env =
  platform :: string
  query :: "string \<Rightarrow> string"
  http :: "request \<Rightarrow> error + response"
  zip_members :: "string \<Rightarrow> (string \<rightharpoonup> string) option"

text \<open>
  The attributes of the \<^verbatim>\<open>PyWizardLite\<close> object (\<^verbatim>\<open>__file_response\<close>, \<^verbatim>\<open>__driver\<close>)
  and what the code does to the host: the lines printed, the command lines given to the
  shell, the PowerShell expressions that were evaluated, the HTTP requests issued, the files of
  the current working directory and the mode last given to \<^verbatim>\<open>os.chmod\<close> for a path.
\<close>

record state =
  self_file_response :: "response option"
  self_driver :: "string option"
  stdout :: "string list"
  shell_commands :: "string list"
  queries :: "string list"
  requests :: "request list"
  files :: "string \<rightharpoonup> string"
  modes :: "string \<rightharpoonup> nat"

definition print :: "string \<Rightarrow> state \<Rightarrow> state" where
  "print line s = s\<lparr>stdout := stdout s @ [line]\<rparr>"

subsection \<open>The version probe\<close>

definition system_requirements :: "env \<Rightarrow> bool" where
  "system_requirements e = (if platform e = ''win32'' then True else False)"

text \<open>
  The process that \<^verbatim>\<open>subprocess.Popen\<close> starts runs the command line that the code has
  composed, so the model runs that text. \<open>strip_prefix p s\<close> is the rest of \<open>s\<close> after
  its prefix \<open>p\<close>, when \<open>s\<close> starts with \<open>p\<close>; \<open>unquote\<close> takes an argument out of its
  double quotes.
\<close>

fun strip_prefix :: "string \<Rightarrow> string \<Rightarrow> string option" where
  "strip_prefix [] s = Some s"
| "strip_prefix (c # p) [] = None"
| "strip_prefix (c # p) (d # s) = (if c = d then strip_prefix p s else None)"

definition unquote :: "string \<Rightarrow> string" where
  "unquote a =
     (if 2 \<le> length a \<and> hd a = dquote \<and> last a = dquote then butlast (tl a) else a)"

text \<open>
  What PowerShell does with the statements that \<^verbatim>\<open>__construct_powershell_commands\<close>
  writes, read from the text of the script, with the value of \<^verbatim>\<open>$tmp\<close> (empty while it
  has none). Blanks, statement separators and the closing brace of a block that was entered are
  passed over; so is the setting of \<^verbatim>\<open>$ErrorActionPreference\<close>, which is why a query that
  fails has the empty value. \<^verbatim>\<open>$tmp = expression\<close> evaluates the expression, which extends
  to the next separator, on the host. \<^verbatim>\<open>if ($tmp) {\<close> enters the block when \<^verbatim>\<open>$tmp\<close> is
  not empty and resumes after the closing brace otherwise. \<^verbatim>\<open>echo $tmp\<close> writes the value
  and a line end. \<^verbatim>\<open>Exit\<close> ends the script: nothing after it is run. The script language
  beyond these statements is not modelled. The result is the standard output and the
  expressions that were evaluated, in order.
\<close>

function run_script :: "(string \<Rightarrow> string) \<Rightarrow> string \<Rightarrow> string \<Rightarrow> string \<times> string list" where
  "run_script q tmp script =
     (if script = [] then ([], [])
      else case strip_prefix '' '' script of Some rest \<Rightarrow> run_script q tmp rest | None \<Rightarrow>
      (case strip_prefix '';'' script of Some rest \<Rightarrow> run_script q tmp rest | None \<Rightarrow>
      (case strip_prefix ''}'' script of Some rest \<Rightarrow> run_script q tmp rest | None \<Rightarrow>
      (case strip_prefix ''$ErrorActionPreference='silentlycontinue';'' script of
         Some rest \<Rightarrow> run_script q tmp rest | None \<Rightarrow>
      (case strip_prefix ''$tmp = '' script of
         Some rest \<Rightarrow>
           (let expression = takeWhile (\<lambda>c. c \<noteq> CHR '';'') rest
            in case run_script q (q expression) (dropWhile (\<lambda>c. c \<noteq> CHR '';'') rest) of
                 (out, evaluated) \<Rightarrow> (out, expression # evaluated))
       | None \<Rightarrow>
      (case strip_prefix ''if ($tmp) {'' script of
         Some rest \<Rightarrow>
           (if tmp \<noteq> [] then run_script q tmp rest
            else run_script q tmp (drop 1 (dropWhile (\<lambda>c. c \<noteq> CHR ''}'') rest)))
       | None \<Rightarrow>
      (case strip_prefix ''echo $tmp'' script of
         Some rest \<Rightarrow>
           (case run_script q tmp rest of
              (out, evaluated) \<Rightarrow> (tmp @ [CHR 0x0D, CHR 0x0A] @ out, evaluated))
       | None \<Rightarrow> ([], []))))))))"
  by pat_completeness auto
termination
proof -
  have shorter: "length (dropWhile P rest) - n < length script"
    if "strip_prefix p script = Some rest" and "p \<noteq> []" for P n p and rest script :: string
  proof -
    from that(1) have "length rest + length p = length script"
      by (induction p script rule: strip_prefix.induct) (auto split: if_splits)
    moreover have "length (dropWhile P rest) \<le> length rest"
      by (rule length_dropWhile_le)
    ultimately show ?thesis using that(2) by (cases p) auto
  qed
  have shorter': "length rest < length script"
    if "strip_prefix p script = Some rest" and "p \<noteq> []" for p and rest script :: string
    using shorter [OF that, of "\<lambda>c. False" 0] by simp
  have shorter'': "length (dropWhile P rest) < length script"
    if "strip_prefix p script = Some rest" and "p \<noteq> []" for P p and rest script :: string
    using shorter [OF that, of P 0] by simp
  show ?thesis
    by (relation "measure (\<lambda>(q, tmp, script). length script)")
       (auto intro: shorter shorter' shorter'' simp del: strip_prefix.simps)
qed

declare run_script.simps [simp del]

text \<open>
  The shell starts the program named on the command line: PowerShell, on the script that is
  its quoted argument. Another command line is not modelled and writes nothing.
\<close>

definition powershell :: "(string \<Rightarrow> string) \<Rightarrow> string \<Rightarrow> string \<times> string list" where
  "powershell q command_line =
     (case strip_prefix ''powershell -NoProfile '' command_line of
        None \<Rightarrow> ([], [])
      | Some argument \<Rightarrow> run_script q [] (unquote argument))"

text \<open>
  \<^verbatim>\<open>__get_chrome_version\<close>, with the class attribute \<^verbatim>\<open>__COMMANDS\<close> as its first
  argument. One process is started, on the composed command line; \<open>version\<close> is its decoded
  standard output.
\<close>

definition get_chrome_version :: "string list \<Rightarrow> env \<Rightarrow> state \<Rightarrow> string option \<times> state" where
  "get_chrome_version commands e s =
     (let script_command = construct_powershell_commands commands
      in case powershell (query e) script_command of
           (version, evaluated) \<Rightarrow>
             (if version \<noteq> '''' then Some (py_strip version) else None,
              s\<lparr>shell_commands := shell_commands s @ [script_command],
                queries := queries s @ evaluated\<rparr>))"

subsection \<open>The fetcher\<close>

definition set_proxy :: "string option \<Rightarrow> (string \<times> string) list option" where
  "set_proxy proxy_url =
     (case proxy_url of
        None \<Rightarrow> None
      | Some u \<Rightarrow> if u \<noteq> '''' then Some [(''http'', u), (''https'', u)] else None)"

definition get_request ::
  "env \<Rightarrow> string \<Rightarrow> string option \<Rightarrow> bool option \<Rightarrow> state \<Rightarrow> (error + response) \<times> state" where
  "get_request e url proxy_url stream s =
     (let proxies = set_proxy proxy_url;
          req = \<lparr>req_url = url, req_proxies = proxies, req_stream = stream, req_timeout = 120\<rparr>
      in (http e req, s\<lparr>requests := requests s @ [req]\<rparr>))"

subsection \<open>Extraction and permissions\<close>

text \<open>
  \<^verbatim>\<open>__extract_zip\<close> sets \<^verbatim>\<open>__driver\<close> first. \<^verbatim>\<open>ZipFile\<close> raises \<open>BadZipFile\<close> on
  bytes that are no archive, and \<^verbatim>\<open>extract\<close> raises \<open>KeyError\<close>, with the message of
  \<^verbatim>\<open>zipfile\<close>, when the archive has no member of that name; otherwise the member is written
  into the working directory.
\<close>

definition extract_zip :: "env \<Rightarrow> state \<Rightarrow> (error + unit) \<times> state" where
  "extract_zip e s =
     (let driver = ''chromedriver.exe'';
          s1 = s\<lparr>self_driver := Some driver\<rparr>
      in case self_file_response s1 of
           None \<Rightarrow> (Inl AttributeError, s1)
         | Some r \<Rightarrow>
             (case zip_members e (resp_content r) of
                None \<Rightarrow> (Inl (Other ''BadZipFile''), s1)
              | Some zip_file \<Rightarrow>
                  (case zip_file driver of
                     None \<Rightarrow>
                       (Inl (KeyError (''There is no item named '' @ [CHR 0x27] @ driver @ [CHR 0x27] @
                                       '' in the archive'')), s1)
                   | Some data \<Rightarrow> (Inr (), s1\<lparr>files := (files s1)(driver \<mapsto> data)\<rparr>))))"

text \<open>\<^verbatim>\<open>os.chmod(self.__driver, 0o755)\<close>; the octal 755 is 493.\<close>

definition set_execusion_permission :: "state \<Rightarrow> (error + unit) \<times> state" where
  "set_execusion_permission s =
     (case self_driver s of
        None \<Rightarrow> (Inl TypeError, s)
      | Some path \<Rightarrow>
          (if files s path = None then (Inl (Other ''FileNotFoundError''), s)
           else (Inr (), s\<lparr>modes := (modes s)(path \<mapsto> 7 * 64 + 5 * 8 + 5)\<rparr>)))"

subsection \<open>The pipeline\<close>

text \<open>
  \<^verbatim>\<open>re.search(r"^\d+", machine_chrome_version).group()\<close>: \<^verbatim>\<open>re.search\<close> raises
  \<open>TypeError\<close> when it is given \<^verbatim>\<open>None\<close> for the text; it gives the longest run of digits
  at the start of the text, or \<^verbatim>\<open>None\<close> when the text does not start with a digit; and
  \<^verbatim>\<open>None\<close> has no attribute \<^verbatim>\<open>group\<close>.
\<close>

definition re_search_digits :: "string option \<Rightarrow> error + string option" where
  "re_search_digits subject =
     (case subject of
        None \<Rightarrow> Inl TypeError
      | Some v \<Rightarrow> Inr (if takeWhile is_digit v = [] then None else Some (takeWhile is_digit v)))"

definition group :: "string option \<Rightarrow> error + string" where
  "group m = (case m of None \<Rightarrow> Inl AttributeError | Some g \<Rightarrow> Inr g)"

definition major_version_of :: "string option \<Rightarrow> error + string" where
  "major_version_of machine_chrome_version =
     (case re_search_digits machine_chrome_version of
        Inl err \<Rightarrow> Inl err
      | Inr m \<Rightarrow> group m)"

definition base_url :: string where
  "base_url = ''https://chromedriver.storage.googleapis.com''"

definition download_chrome_web_driver :: "env \<Rightarrow> string option \<Rightarrow> state \<Rightarrow> (error + unit) \<times> state" where
  "download_chrome_web_driver e proxy_url s =
     (case get_chrome_version COMMANDS e s of
        (machine_chrome_version, s1) \<Rightarrow>
          (case major_version_of machine_chrome_version of
             Inl err \<Rightarrow> (Inl err, s1)
           | Inr major_version \<Rightarrow>
               (let version_latest_release = base_url @ ''/LATEST_RELEASE_'' @ major_version
                in case get_request e version_latest_release proxy_url None s1 of
                     (Inl err, s2) \<Rightarrow> (Inl err, s2)
                   | (Inr r, s2) \<Rightarrow>
                       (let ver_lat_rel = py_strip (resp_text r);
                            content_response = base_url @ ''/'' @ ver_lat_rel @ ''/chromedriver_win32.zip''
                        in case get_request e content_response proxy_url (Some True) s2 of
                             (Inl err, s3) \<Rightarrow> (Inl err, s3)
                           | (Inr file_response, s3) \<Rightarrow>
                               (case extract_zip e (s3\<lparr>self_file_response := Some file_response\<rparr>) of
                                  (Inl err, s4) \<Rightarrow> (Inl err, s4)
                                | (Inr u, s4) \<Rightarrow> set_execusion_permission s4)))))"

definition setup_chrome_web_driver :: "env \<Rightarrow> string option \<Rightarrow> state \<Rightarrow> (error + unit) \<times> state" where
  "setup_chrome_web_driver e proxy_url s =
     (if system_requirements e then download_chrome_web_driver e proxy_url s
      else (Inl (SystemExit 0), print ''System does not meet the requirements'' s))"

subsection \<open>A host for concrete runs\<close>

text \<open>
  A host on which only the registry entry of the current user names a version, a release
  service that knows one release, and an archive with the driver in it.
\<close>

definition initial_state :: state where
  "initial_state =
     \<lparr>self_file_response = None, self_driver = None, stdout = [], shell_commands = [],
      queries = [], requests = [], files = Map.empty, modes = Map.empty\<rparr>"

definition example_http :: "request \<Rightarrow> error + response" where
  "example_http req =
     (if req_url req = ''https://chromedriver.storage.googleapis.com/LATEST_RELEASE_119''
      then Inr \<lparr>status_code = 200, resp_text = ''119.0.6045.105'' @ [CHR 0x0A],
                resp_content = ''119.0.6045.105'' @ [CHR 0x0A]\<rparr>
      else if req_url req =
                ''https://chromedriver.storage.googleapis.com/119.0.6045.105/chromedriver_win32.zip''
      then Inr \<lparr>status_code = 200, resp_text = ''PK'', resp_content = ''PK''\<rparr>
      else Inr \<lparr>status_code = 404, resp_text = ''NoSuchKey'', resp_content = ''NoSuchKey''\<rparr>)"

definition example_env :: "string \<Rightarrow> (string \<Rightarrow> string) \<Rightarrow> env" where
  "example_env p q =
     \<lparr>platform = p, query = q, http = example_http,
      zip_members =
        (\<lambda>bytes. if bytes = ''PK''
                  then Some [''chromedriver.exe'' \<mapsto> ''MZ'', ''LICENSE.chromedriver'' \<mapsto> ''BSD'']
                  else None)\<rparr>"

definition registry_only :: "string \<Rightarrow> string" where
  "registry_only expression = (if expression = COMMANDS ! 3 then ''119.0.6045.105'' else '''')"


section \<open>Properties of the bounded wait\<close>

subsection \<open>One iteration of the loop\<close>


lemma py_int_mono: "a \<le> b \<Longrightarrow> py_int a \<le> py_int b"
proof -
  assume le: "a \<le> b"
  consider "0 \<le> a" | "a < 0" "0 \<le> b" | "b < 0" by linarith
  then show ?thesis
  proof cases
    case 1
    with le show ?thesis by (simp add: py_int_def zdiv_mono1)
  next
    case 2
    then have "py_int a \<le> 0" "0 \<le> py_int b" by (simp_all add: py_int_def)
    then show ?thesis by simp
  next
    case 3
    with le have "(- b) div 1000 \<le> (- a) div 1000" by (intro zdiv_mono1) simp_all
    with 3 le show ?thesis by (simp add: py_int_def)
  qed
qed

lemma wait_loop_timeout:
  "wait_time \<le> py_int (now s - start_time) \<Longrightarrow>
   wait_loop drv element_by element wait_time start_time v s =
     (Inl (ElementNotFound (not_found_message element)), s)"
  by (subst wait_loop.simps) (simp add: time_time_def)

lemma wait_loop_absorb:
  "py_int (now s - start_time) < wait_time \<Longrightarrow>
   map_of element_dict element_by = Some b \<Longrightarrow>
   drv (calls s) b element = (Inl (ElementNotFound m), d) \<Longrightarrow>
   wait_loop drv element_by element wait_time start_time v s =
     wait_loop drv element_by element wait_time start_time (Some False)
       (sleep 1 (s\<lparr>now := now s + int d, calls := Suc (calls s),
                     trace := trace s @ [Find_element b element]\<rparr>))"
  by (subst wait_loop.simps) (simp add: time_time_def try_locate_def find_element_def)

lemma wait_loop_found:
  "py_int (now s - start_time) < wait_time \<Longrightarrow>
   map_of element_dict element_by = Some b \<Longrightarrow>
   drv (calls s) b element = (Inr (Some w), d) \<Longrightarrow>
   wait_loop drv element_by element wait_time start_time v s =
     (Inr (), sleep found_wait_time (s\<lparr>now := now s + int d, calls := Suc (calls s),
                     trace := trace s @ [Find_element b element]\<rparr>))"
  by (subst wait_loop.simps) (simp add: time_time_def try_locate_def find_element_def)

lemmas wait_eval =
  wait_until_element_is_visible_def wait_loop.simps time_time_def try_locate_def
  find_element_def element_dict_def py_int_def sleep_def not_found_message_def
  found_wait_time_def always_raising_def succeeding_on_attempt_def

subsection \<open>A budget that is not positive\<close>

text \<open>
  C9. For every wait budget less than or equal to 0, \<^verbatim>\<open>wait_until_element_is_visible\<close>
  raises \<open>ElementNotFound\<close> on the first iteration and makes no call of the driver: the
  world is returned as it was (no locate call, no sleep, no time elapsed), whatever the driver
  and the strategy name are, because the check of the elapsed time comes first.
\<close>

theorem wait_nonpositive_budget_raises_without_locate:
  "t \<le> 0 \<Longrightarrow>
   wait_until_element_is_visible drv element_by element (Some t) s =
     (Inl (ElementNotFound (not_found_message element)), s)"
  by (simp add: wait_until_element_is_visible_def time_time_def py_int_def wait_loop_timeout)

theorem wait_nonpositive_budget_raises_without_locate_witness:
  "(0::int) \<le> 0 \<and>
   wait_until_element_is_visible (\<lambda>n b t. (Inr (Some 7), 0)) ''ID'' ''submit'' (Some 0)
       \<lparr>now = 5000, calls = 0, trace = []\<rparr> =
     (Inl (ElementNotFound ''The element - submit not found within the limited time!''),
      \<lparr>now = 5000, calls = 0, trace = []\<rparr>)"
  using wait_nonpositive_budget_raises_without_locate
          [of 0 "\<lambda>n b t. (Inr (Some 7), 0)" "''ID''" "''submit''" "\<lparr>now = 5000, calls = 0, trace = []\<rparr>"]
  by (simp add: not_found_message_def)

subsection \<open>Lookup failures inside the loop\<close>

text \<open>
  C1. The claim: in every poll attempt in which \<^verbatim>\<open>driver.find_element\<close> fails, the
  failure is absorbed as "not yet visible", the loop sleeps one second and goes on polling.
  The \<^verbatim>\<open>except\<close> clause names the module's own class \<open>ElementNotFound\<close>, which no
  Selenium driver raises: a lookup that fails with Selenium's \<open>NoSuchElementException\<close>
  leaves the wait at the first attempt, with no sleep and no second attempt, and a lookup that
  returns \<^verbatim>\<open>None\<close> at the first attempt ends in \<open>UnboundLocalError\<close>, the variable
  \<^verbatim>\<open>is_element_found\<close> never having been assigned. The run below is under the default
  budget of 60 seconds.
\<close>

theorem wait_lookup_failure_propagates:
  "wait_until_element_is_visible (always_raising (Other ''NoSuchElementException''))
       ''XPath'' ''//button'' None \<lparr>now = 0, calls = 0, trace = []\<rparr> =
     (Inl (Other ''NoSuchElementException''),
      \<lparr>now = 0, calls = 1, trace = [Find_element XPATH ''//button'']\<rparr>) \<and>
   wait_until_element_is_visible (\<lambda>n b target. (Inr None, 0))
       ''XPath'' ''//button'' None \<lparr>now = 0, calls = 0, trace = []\<rparr> =
     (Inl (UnboundLocalError ''is_element_found''),
      \<lparr>now = 0, calls = 1, trace = [Find_element XPATH ''//button'']\<rparr>)"
  by (simp add: wait_eval)

subsection \<open>A lookup that never succeeds\<close>





subsection \<open>A lookup that succeeds after some failures\<close>

lemma wait_loop_found_after:
  assumes dict: "map_of element_dict element_by = Some b"
  shows "start_time \<le> now s \<Longrightarrow>
     \<forall>i<j. \<exists>m. fst (drv (calls s + i) b element) = Inl (ElementNotFound m) \<Longrightarrow>
     fst (drv (calls s + j) b element) = Inr (Some w) \<Longrightarrow>
     py_int (now s + int j * 1000 + (\<Sum>i<j. int (snd (drv (calls s + i) b element))) - start_time)
       < wait_time \<Longrightarrow>
     wait_loop drv element_by element wait_time start_time v s =
       (Inr (), \<lparr>now = now s + (int j + 1) * 1000 + (\<Sum>i<Suc j. int (snd (drv (calls s + i) b element))),
                 calls = calls s + Suc j,
                 trace = trace s @ concat (replicate j [Find_element b element, Sleep 1])
                           @ [Find_element b element, Sleep 1]\<rparr>)"
proof (induction j arbitrary: s v)
  case 0
  obtain d where d: "drv (calls s) b element = (Inr (Some w), d)"
    using "0.prems"(3) by (cases "drv (calls s) b element") auto
  from "0.prems"(4) have lt: "py_int (now s - start_time) < wait_time" by simp
  from lt dict d
  have "wait_loop drv element_by element wait_time start_time v s =
     (Inr (), sleep found_wait_time (s\<lparr>now := now s + int d, calls := Suc (calls s),
                     trace := trace s @ [Find_element b element]\<rparr>))"
    by (rule wait_loop_found)
  then show ?case
    by (simp add: d sleep_def found_wait_time_def)
next
  case (Suc j)
  let ?dur = "\<lambda>n. int (snd (drv n b element))"
  obtain m d where d: "drv (calls s) b element = (Inl (ElementNotFound m), d)"
    using Suc.prems(2) by (cases "drv (calls s) b element") force
  have shift: "(\<Sum>i<Suc j. ?dur (calls s + i)) = int d + (\<Sum>i<j. ?dur (Suc (calls s) + i))"
    by (simp add: sum.lessThan_Suc_shift d del: sum.lessThan_Suc)
  have "now s - start_time
          \<le> now s + int (Suc j) * 1000 + (\<Sum>i<Suc j. ?dur (calls s + i)) - start_time"
    by (simp add: sum_nonneg)
  then have "py_int (now s - start_time) < wait_time"
    using Suc.prems(4) py_int_mono by (meson le_less_trans)
  from this dict d
  have step: "wait_loop drv element_by element wait_time start_time v s =
     wait_loop drv element_by element wait_time start_time (Some False)
       (sleep 1 (s\<lparr>now := now s + int d, calls := Suc (calls s),
                     trace := trace s @ [Find_element b element]\<rparr>))"
    by (rule wait_loop_absorb)
  define s2 where "s2 = sleep 1 (s\<lparr>now := now s + int d, calls := Suc (calls s),
                     trace := trace s @ [Find_element b element]\<rparr>)"
  have s2: "now s2 = now s + int d + 1000" "calls s2 = Suc (calls s)"
           "trace s2 = trace s @ [Find_element b element, Sleep 1]"
    by (simp_all add: s2_def sleep_def)
  have p1: "start_time \<le> now s2" using Suc.prems(1) s2 by simp
  have p2: "\<forall>i<j. \<exists>m. fst (drv (calls s2 + i) b element) = Inl (ElementNotFound m)"
    using Suc.prems(2) s2 by (metis Suc_less_eq add_Suc_shift)
  have p3: "fst (drv (calls s2 + j) b element) = Inr (Some w)"
    using Suc.prems(3) s2 by simp
  have p4: "py_int (now s2 + int j * 1000 + (\<Sum>i<j. ?dur (calls s2 + i)) - start_time) < wait_time"
    using Suc.prems(4) unfolding shift s2 by (simp add: algebra_simps)
  have shift2: "(\<Sum>i<Suc (Suc j). ?dur (calls s + i)) = int d + (\<Sum>i<Suc j. ?dur (Suc (calls s) + i))"
    by (simp add: sum.lessThan_Suc_shift [of _ "Suc j"] d del: sum.lessThan_Suc)
  show ?case
    unfolding step s2_def [symmetric] Suc.IH [OF p1 p2 p3 p4] shift2
    by (simp add: s2 algebra_simps)
qed

text \<open>
  C6, as amended. For every valid strategy name and every driver whose \<^verbatim>\<open>find_element\<close>
  raises \<open>ElementNotFound\<close> at its first \<open>j\<close> calls and returns an element at the next call
  (its \<open>k\<close>-th attempt, \<open>k = j + 1\<close>), that attempt starting before the budget expires,
  \<^verbatim>\<open>wait_until_element_is_visible\<close> sleeps one settle second after the successful lookup
  and returns normally. It has then made \<open>k\<close> lookups and slept \<open>j\<close> polling seconds and one
  settle second: it returns when \<open>k\<close> seconds plus the time of the lookups have elapsed, so
  a success on the 3rd attempt of an instantaneous driver returns at 3 seconds.
\<close>

theorem wait_found_after_failed_attempts:
  assumes dict: "map_of element_dict element_by = Some b"
      and fails: "\<forall>i<j. \<exists>m. fst (drv (calls s + i) b element) = Inl (ElementNotFound m)"
      and found: "fst (drv (calls s + j) b element) = Inr (Some w)"
      and budget: "py_int (int j * 1000 + (\<Sum>i<j. int (snd (drv (calls s + i) b element))))
                     < (case default_time of None \<Rightarrow> 60 | Some t \<Rightarrow> t)"
  shows "wait_until_element_is_visible drv element_by element default_time s =
           (Inr (),
            \<lparr>now = now s + (int j + 1) * 1000 + (\<Sum>i<Suc j. int (snd (drv (calls s + i) b element))),
             calls = calls s + Suc j,
             trace = trace s @ concat (replicate j [Find_element b element, Sleep 1])
                       @ [Find_element b element, Sleep 1]\<rparr>)"
proof -
  have "py_int (now s + int j * 1000 + (\<Sum>i<j. int (snd (drv (calls s + i) b element))) - now s)
          < (case default_time of None \<Rightarrow> 60 | Some t \<Rightarrow> t)"
    using budget by (simp add: algebra_simps)
  from wait_loop_found_after
         [where drv = drv and b = b and element = element and element_by = element_by and j = j
            and w = w and s = s and start_time = "now s" and v = None, OF dict order_refl fails found this]
  show ?thesis
    by (simp add: wait_until_element_is_visible_def time_time_def)
qed

text \<open>The amended C6 at a success on the 3rd attempt, under the default budget.\<close>

theorem wait_found_after_failed_attempts_witness:
  "map_of element_dict ''ID'' = Some ID \<and>
   fst (succeeding_on_attempt 3 7 0 ID ''submit'') = Inl (ElementNotFound ''not there yet'') \<and>
   fst (succeeding_on_attempt 3 7 1 ID ''submit'') = Inl (ElementNotFound ''not there yet'') \<and>
   fst (succeeding_on_attempt 3 7 2 ID ''submit'') = Inr (Some 7) \<and>
   snd (succeeding_on_attempt 3 7 0 ID ''submit'') = 0 \<and>
   snd (succeeding_on_attempt 3 7 1 ID ''submit'') = 0 \<and>
   py_int (2 * 1000 + 0) < 60 \<and>
   wait_until_element_is_visible (succeeding_on_attempt 3 7) ''ID'' ''submit'' None
       \<lparr>now = 0, calls = 0, trace = []\<rparr> =
     (Inr (), \<lparr>now = 3000, calls = 3,
               trace = [Find_element ID ''submit'', Sleep 1, Find_element ID ''submit'', Sleep 1,
                        Find_element ID ''submit'', Sleep 1]\<rparr>)"
proof -
  let ?s = "\<lparr>now = 0, calls = 0, trace = []\<rparr>"
  have h1: "map_of element_dict ''ID'' = Some ID" by (simp add: element_dict_def)
  have h2: "\<forall>i<2. \<exists>m. fst (succeeding_on_attempt 3 7 (calls ?s + i) ID ''submit'') = Inl (ElementNotFound m)"
    by (simp add: succeeding_on_attempt_def)
  have h3: "fst (succeeding_on_attempt 3 7 (calls ?s + 2) ID ''submit'') = Inr (Some 7)"
    by (simp add: succeeding_on_attempt_def)
  have h4: "py_int (int 2 * 1000 + (\<Sum>i<2. int (snd (succeeding_on_attempt 3 7 (calls ?s + i) ID ''submit''))))
              < (case None of None \<Rightarrow> 60 | Some t \<Rightarrow> t)"
    by (simp add: succeeding_on_attempt_def py_int_def)
  show ?thesis
    using h1 h2 h3 h4
      wait_found_after_failed_attempts
        [where drv = "succeeding_on_attempt 3 7" and b = ID and element = "''submit''"
           and element_by = "''ID''" and j = 2 and w = 7 and s = ?s and default_time = None,
         OF h1 h2 h3 h4]
    by (simp add: succeeding_on_attempt_def py_int_def numeral_2_eq_2 numeral_3_eq_3)
qed

text \<open>
  C6 as it was stated puts the return of a success on the 3rd attempt at about 4 seconds
  (3 polling ticks and a settle second). The code sleeps twice while polling and once to
  settle: with ticks of one second it returns at 3 seconds.
\<close>

theorem wait_third_attempt_counterexample:
  "wait_until_element_is_visible (succeeding_on_attempt 3 7) ''ID'' ''submit'' None
       \<lparr>now = 0, calls = 0, trace = []\<rparr> =
     (Inr (), \<lparr>now = 3000, calls = 3,
               trace = [Find_element ID ''submit'', Sleep 1, Find_element ID ''submit'', Sleep 1,
                        Find_element ID ''submit'', Sleep 1]\<rparr>) \<and>
   now (snd (wait_until_element_is_visible (succeeding_on_attempt 3 7) ''ID'' ''submit'' None
               \<lparr>now = 0, calls = 0, trace = []\<rparr>)) - 0 \<noteq> 4000"
  by (simp add: wait_eval)

section \<open>Properties of the acquisition\<close>

subsection \<open>The version probe\<close>

lemma py_strip_append_space:
  "\<forall>c\<in>set ws. py_isspace c \<Longrightarrow> py_strip (xs @ ws) = py_strip xs"
proof -
  assume "\<forall>c\<in>set ws. py_isspace c"
  then have "dropWhile py_isspace (rev ws @ rev xs) = dropWhile py_isspace (rev xs)"
    by (intro dropWhile_append2) simp
  then show ?thesis by (simp add: py_strip_def)
qed

lemma strip_prefix_append: "strip_prefix p (p @ r) = Some r"
  by (induction p) simp_all

lemma run_script_Nil: "run_script q tmp [] = ([], [])"
  by (subst run_script.simps) simp

lemma run_script_space: "run_script q tmp (CHR '' '' # rest) = run_script q tmp rest"
  by (subst run_script.simps) simp

lemma run_script_semicolon: "run_script q tmp (CHR '';'' # rest) = run_script q tmp rest"
  by (subst run_script.simps) simp

lemma run_script_assign:
  "CHR '';'' \<notin> set c \<Longrightarrow>
   run_script q tmp (''$tmp = '' @ c @ CHR '';'' # rest) =
     (case run_script q (q c) (CHR '';'' # rest) of (out, evaluated) \<Rightarrow> (out, c # evaluated))"
proof -
  assume "CHR '';'' \<notin> set c"
  then have all: "\<forall>x\<in>set c. x \<noteq> CHR '';''" by auto
  have t: "takeWhile (\<lambda>x. x \<noteq> CHR '';'') (c @ CHR '';'' # rest) = c"
    using all by (simp add: takeWhile_tail)
  have d: "dropWhile (\<lambda>x. x \<noteq> CHR '';'') (c @ CHR '';'' # rest) = CHR '';'' # rest"
    using all by (simp add: dropWhile_append3)
  show ?thesis
    by (subst run_script.simps) (simp add: t d Let_def)
qed

lemma run_script_if_true:
  "tmp \<noteq> [] \<Longrightarrow> run_script q tmp (''if ($tmp) {'' @ rest) = run_script q tmp rest"
  by (subst run_script.simps) simp

lemma run_script_if_false:
  "run_script q [] (''if ($tmp) {'' @ rest) =
     run_script q [] (drop 1 (dropWhile (\<lambda>c. c \<noteq> CHR ''}'') rest))"
  by (subst run_script.simps) simp

lemma run_script_echo:
  "run_script q tmp (''echo $tmp'' @ rest) =
     (case run_script q tmp rest of
        (out, evaluated) \<Rightarrow> (tmp @ [CHR 0x0D, CHR 0x0A] @ out, evaluated))"
  by (subst run_script.simps) simp

lemma run_script_exit: "run_script q tmp (''Exit'' @ rest) = ([], [])"
  by (subst run_script.simps) simp

text \<open>
  One instance of the template: a query that answers is echoed and \<^verbatim>\<open>Exit\<close> ends the
  script, whatever follows; a query that does not answer leaves the rest of the script to run.
\<close>

lemma run_script_template:
  assumes "CHR '';'' \<notin> set c"
  shows "run_script q tmp (first_hit_template c @ rest) =
           (if q c \<noteq> [] then (q c @ [CHR 0x0D, CHR 0x0A], [c])
            else case run_script q [] rest of (out, evaluated) \<Rightarrow> (out, c # evaluated))"
proof -
  have split: "first_hit_template c @ rest =
      ''$tmp = '' @ c @ CHR '';'' # ('' if ($tmp) {echo $tmp; Exit;};'' @ rest)"
    by (simp add: first_hit_template_def)
  have body: "run_script q (q c) (CHR '';'' # ('' if ($tmp) {echo $tmp; Exit;};'' @ rest)) =
     (if q c \<noteq> [] then (q c @ [CHR 0x0D, CHR 0x0A], [])
      else run_script q [] rest)"
  proof (cases "q c = []")
    case True
    have "run_script q [] (CHR '';'' # ('' if ($tmp) {echo $tmp; Exit;};'' @ rest)) =
          run_script q [] (''if ($tmp) {'' @ (''echo $tmp; Exit;};'' @ rest))"
      by (simp add: run_script_semicolon run_script_space)
    also have "\<dots> = run_script q [] (CHR '';'' # rest)"
      by (subst run_script_if_false) simp
    also have "\<dots> = run_script q [] rest"
      by (rule run_script_semicolon)
    finally show ?thesis using True by simp
  next
    case False
    have "run_script q (q c) (CHR '';'' # ('' if ($tmp) {echo $tmp; Exit;};'' @ rest)) =
          run_script q (q c) (''if ($tmp) {'' @ (''echo $tmp'' @ (''; Exit;};'' @ rest)))"
      by (simp add: run_script_semicolon run_script_space)
    also have "\<dots> = run_script q (q c) (''echo $tmp'' @ (''; Exit;};'' @ rest))"
      using False by (rule run_script_if_true)
    also have "\<dots> = (q c @ [CHR 0x0D, CHR 0x0A], [])"
    proof -
      have "run_script q (q c) (''; Exit;};'' @ rest) =
            run_script q (q c) (''Exit'' @ ('';};'' @ rest))"
        by (simp add: run_script_semicolon run_script_space)
      then have "run_script q (q c) (''; Exit;};'' @ rest) = ([], [])"
        by (simp only: run_script_exit)
      then show ?thesis
        by (subst run_script_echo) simp
    qed
    finally show ?thesis using False by simp
  qed
  show ?thesis
    unfolding split run_script_assign [OF assms] body
    by simp
qed

lemma join_templates_Cons:
  "join '' '' (map first_hit_template (c # cs)) =
     first_hit_template c @
       (if cs = [] then [] else CHR '' '' # join '' '' (map first_hit_template cs))"
  by (cases cs) simp_all

lemma run_script_body_hit:
  "i < length commands \<Longrightarrow> q (commands ! i) \<noteq> [] \<Longrightarrow> \<forall>j<i. q (commands ! j) = [] \<Longrightarrow>
   \<forall>c\<in>set commands. CHR '';'' \<notin> set c \<Longrightarrow>
   run_script q tmp (join '' '' (map first_hit_template commands)) =
     (q (commands ! i) @ [CHR 0x0D, CHR 0x0A], take (Suc i) commands)"
proof (induction commands arbitrary: i tmp)
  case Nil
  then show ?case by simp
next
  case (Cons c cs)
  from Cons.prems(4) have c: "CHR '';'' \<notin> set c" by simp
  show ?case
  proof (cases i)
    case 0
    with Cons.prems(2) show ?thesis
      unfolding join_templates_Cons run_script_template [OF c] by simp
  next
    case (Suc k)
    with Cons.prems have qc: "q c = []" by auto
    from Suc Cons.prems have cs: "cs \<noteq> []" by auto
    from Suc Cons.prems
    have "run_script q [] (join '' '' (map first_hit_template cs)) =
            (q (cs ! k) @ [CHR 0x0D, CHR 0x0A], take (Suc k) cs)"
      by (intro Cons.IH) auto
    then show ?thesis
      unfolding join_templates_Cons run_script_template [OF c]
      using qc cs Suc by (simp add: run_script_space)
  qed
qed

lemma run_script_body_none:
  "\<forall>c\<in>set commands. q c = [] \<Longrightarrow> \<forall>c\<in>set commands. CHR '';'' \<notin> set c \<Longrightarrow>
   run_script q tmp (join '' '' (map first_hit_template commands)) = ([], commands)"
proof (induction commands arbitrary: tmp)
  case Nil
  then show ?case by (simp add: run_script_Nil)
next
  case (Cons c cs)
  from Cons.prems have c: "CHR '';'' \<notin> set c" and qc: "q c = []" by simp_all
  from Cons.prems
  have "run_script q [] (join '' '' (map first_hit_template cs)) = ([], cs)"
    by (intro Cons.IH) auto
  then show ?case
    unfolding join_templates_Cons run_script_template [OF c]
    using qc by (simp add: run_script_space run_script_Nil)
qed

text \<open>The composed command line, run: PowerShell runs the instances of the template.\<close>

lemma powershell_composed:
  "powershell q (construct_powershell_commands commands) =
     run_script q [] (join '' '' (map first_hit_template commands))"
proof -
  let ?script = "''$ErrorActionPreference='silentlycontinue'; '' @
                   join '' '' (map first_hit_template commands)"
  have "construct_powershell_commands commands =
          ''powershell -NoProfile '' @ (dquote # ?script @ [dquote])"
    by (simp add: construct_powershell_commands_def)
  then have "powershell q (construct_powershell_commands commands) =
          run_script q [] (unquote (dquote # ?script @ [dquote]))"
    unfolding powershell_def by (simp only: strip_prefix_append option.case)
  also have "unquote (dquote # ?script @ [dquote]) = ?script"
    by (simp add: unquote_def butlast_append)
  also have "run_script q [] ?script =
      run_script q [] (join '' '' (map first_hit_template commands))"
  proof -
    have "?script = ''$ErrorActionPreference='silentlycontinue';'' @
            (CHR '' '' # join '' '' (map first_hit_template commands))"
      by simp
    then show ?thesis
      by (subst run_script.simps) (simp add: strip_prefix_append run_script_space)
  qed
  finally show ?thesis .
qed

lemma get_chrome_version_hit:
  assumes "i < length commands" and "query e (commands ! i) \<noteq> []"
      and "\<forall>j<i. query e (commands ! j) = []"
      and "\<forall>c\<in>set commands. CHR '';'' \<notin> set c"
  shows "get_chrome_version commands e s =
           (Some (py_strip (query e (commands ! i))),
            s\<lparr>shell_commands := shell_commands s @ [construct_powershell_commands commands],
              queries := queries s @ take (Suc i) commands\<rparr>)"
proof -
  have sp: "\<forall>c\<in>set [CHR 0x0D, CHR 0x0A]. py_isspace c"
    by (simp add: py_isspace_def)
  have "powershell (query e) (construct_powershell_commands commands) =
          (query e (commands ! i) @ [CHR 0x0D, CHR 0x0A], take (Suc i) commands)"
    unfolding powershell_composed using assms by (rule run_script_body_hit)
  then show ?thesis
    using py_strip_append_space [OF sp] assms(2) by (simp add: get_chrome_version_def)
qed

lemma get_chrome_version_none:
  assumes "\<forall>c\<in>set commands. query e c = []"
      and "\<forall>c\<in>set commands. CHR '';'' \<notin> set c"
  shows "get_chrome_version commands e s =
           (None,
            s\<lparr>shell_commands := shell_commands s @ [construct_powershell_commands commands],
              queries := queries s @ commands\<rparr>)"
proof -
  have "powershell (query e) (construct_powershell_commands commands) = ([], commands)"
    unfolding powershell_composed using assms by (rule run_script_body_none)
  then show ?thesis
    by (simp add: get_chrome_version_def)
qed

lemma COMMANDS_single_statements: "\<forall>c\<in>set COMMANDS. CHR '';'' \<notin> set c"
  by (simp add: COMMANDS_def)

text \<open>The probe with the commands of the class, on the hosts of the concrete runs.\<close>

lemma probe_no_answer:
  assumes "query e = (\<lambda>x. [])"
  shows "get_chrome_version COMMANDS e s =
           (None,
            s\<lparr>shell_commands := shell_commands s @ [construct_powershell_commands COMMANDS],
              queries := queries s @ COMMANDS\<rparr>)"
  by (rule get_chrome_version_none) (simp_all add: assms COMMANDS_single_statements)

lemma probe_registry_only:
  assumes "query e = registry_only"
  shows "get_chrome_version COMMANDS e s =
           (Some ''119.0.6045.105'',
            s\<lparr>shell_commands := shell_commands s @ [construct_powershell_commands COMMANDS],
              queries := queries s @ take (Suc 3) COMMANDS\<rparr>)"
proof -
  have i: "3 < length COMMANDS"
    by (simp add: COMMANDS_def)
  have hit: "query e (COMMANDS ! 3) \<noteq> []"
    by (simp add: assms registry_only_def)
  have miss: "\<forall>j<3. query e (COMMANDS ! j) = []"
    by (simp add: assms registry_only_def COMMANDS_def numeral_3_eq_3 All_less_Suc)
  have v: "py_strip (query e (COMMANDS ! 3)) = ''119.0.6045.105''"
    by (simp add: assms registry_only_def py_strip_def py_isspace_def)
  show ?thesis
    using get_chrome_version_hit [OF i hit miss COMMANDS_single_statements, of s]
    by (simp only: v)
qed



subsection \<open>The major version\<close>

text \<open>
  C4, as amended. The extraction of the major version takes the leading run of decimal
  digits of the version string: \<open>119.0.6045.105\<close> gives \<open>119\<close>; for every version string
  that does not start with a digit it fails with \<open>AttributeError\<close>, the regular expression
  having found no match on which \<^verbatim>\<open>group\<close> could be called.
\<close>

theorem major_version_leading_digits:
  "major_version_of (Some ''119.0.6045.105'') = Inr ''119'' \<and>
   major_version_of (Some v) =
     (if v \<noteq> [] \<and> is_digit (hd v) then Inr (takeWhile is_digit v) else Inl AttributeError)"
proof
  show "major_version_of (Some ''119.0.6045.105'') = Inr ''119''"
    by (simp add: major_version_of_def re_search_digits_def group_def is_digit_def)
  show "major_version_of (Some v) =
     (if v \<noteq> [] \<and> is_digit (hd v) then Inr (takeWhile is_digit v) else Inl AttributeError)"
    by (cases v) (simp_all add: major_version_of_def re_search_digits_def group_def)
qed

text \<open>
  C4 as it was stated names the failure \<open>MalformedVersion\<close>; the module has no such error,
  and the failure on \<open>v119\<close> is the interpreter's \<open>AttributeError\<close>.
\<close>

theorem major_version_counterexample:
  "major_version_of (Some ''v119'') = Inl AttributeError \<and>
   exn_class AttributeError \<noteq> ''MalformedVersion''"
  by (simp add: major_version_of_def re_search_digits_def group_def is_digit_def)

text \<open>
  C5, as amended. When the version probe returns \<open>None\<close>, the pipeline makes no check of
  its own: the search for the major version is given \<open>None\<close> and raises \<open>TypeError\<close>, which
  ends the pipeline before any HTTP request is issued and before any file is written.
\<close>

theorem absent_version_raises_type_error:
  "fst (get_chrome_version COMMANDS e s) = None \<Longrightarrow>
   fst (download_chrome_web_driver e proxy_url s) = Inl TypeError \<and>
   requests (snd (download_chrome_web_driver e proxy_url s)) = requests s \<and>
   files (snd (download_chrome_web_driver e proxy_url s)) = files s"
  by (cases "get_chrome_version COMMANDS e s")
     (auto simp: download_chrome_web_driver_def major_version_of_def re_search_digits_def
                 get_chrome_version_def Let_def split: prod.splits)

text \<open>The amended C5 on a host where no query answers.\<close>

theorem absent_version_raises_type_error_witness:
  "fst (get_chrome_version COMMANDS (example_env ''win32'' (\<lambda>x. '''')) initial_state) = None \<and>
   fst (download_chrome_web_driver (example_env ''win32'' (\<lambda>x. '''')) None initial_state) = Inl TypeError \<and>
   requests (snd (download_chrome_web_driver (example_env ''win32'' (\<lambda>x. '''')) None initial_state)) = []"
proof -
  have h: "fst (get_chrome_version COMMANDS (example_env ''win32'' (\<lambda>x. '''')) initial_state) = None"
    by (simp add: probe_no_answer example_env_def)
  from h absent_version_raises_type_error [OF h, of None]
  show ?thesis by (simp add: initial_state_def)
qed

text \<open>
  C5 as it was stated has the pipeline report a distinct error \<open>VersionNotFound\<close> before
  the major version is derived; on a host where no query answers, the error is the
  \<open>TypeError\<close> of the derivation itself.
\<close>

theorem absent_version_counterexample:
  "fst (download_chrome_web_driver (example_env ''win32'' (\<lambda>x. '''')) None initial_state) = Inl TypeError \<and>
   exn_class TypeError \<noteq> ''VersionNotFound''"
  by (simp add: download_chrome_web_driver_def major_version_of_def re_search_digits_def
                probe_no_answer example_env_def)

subsection \<open>The unsupported host\<close>

text \<open>
  C7. When \<^verbatim>\<open>setup_chrome_web_driver\<close> is called on a host whose platform is not
  \<open>win32\<close>, it prints the diagnostic, leaves the process with exit code 0, and issues no HTTP
  request and starts no shell process: apart from the printed line the state is unchanged.
\<close>

theorem setup_unsupported_host_exits_zero:
  "platform e \<noteq> ''win32'' \<Longrightarrow>
   setup_chrome_web_driver e proxy_url s =
     (Inl (SystemExit 0), s\<lparr>stdout := stdout s @ [''System does not meet the requirements'']\<rparr>) \<and>
   requests (snd (setup_chrome_web_driver e proxy_url s)) = requests s \<and>
   shell_commands (snd (setup_chrome_web_driver e proxy_url s)) = shell_commands s"
  by (simp add: setup_chrome_web_driver_def system_requirements_def print_def)

text \<open>C7 on a Linux host.\<close>

theorem setup_unsupported_host_exits_zero_witness:
  "platform (example_env ''linux'' registry_only) \<noteq> ''win32'' \<and>
   fst (setup_chrome_web_driver (example_env ''linux'' registry_only) None initial_state) = Inl (SystemExit 0) \<and>
   stdout (snd (setup_chrome_web_driver (example_env ''linux'' registry_only) None initial_state))
     = [''System does not meet the requirements''] \<and>
   requests (snd (setup_chrome_web_driver (example_env ''linux'' registry_only) None initial_state)) = []"
proof -
  have h: "platform (example_env ''linux'' registry_only) \<noteq> ''win32''"
    by (simp add: example_env_def)
  from h setup_unsupported_host_exits_zero [OF h, of None initial_state]
  show ?thesis by (simp add: initial_state_def)
qed

subsection \<open>The fetcher\<close>

text \<open>
  C8. For every URL and every proxy URL that is given (a non-empty text), the fetcher calls
  the HTTP transport with a proxy map that gives that URL to both \<open>http\<close> and \<open>https\<close>; with
  no proxy URL the proxy map is \<open>None\<close>; and in every case exactly one request is issued, with
  a timeout of 120 seconds that no argument of the caller changes.
\<close>

theorem get_request_proxy_and_timeout:
  "(u \<noteq> [] \<longrightarrow>
      get_request e url (Some u) stream s =
        (http e \<lparr>req_url = url, req_proxies = Some [(''http'', u), (''https'', u)],
                  req_stream = stream, req_timeout = 120\<rparr>,
         s\<lparr>requests := requests s @
              [\<lparr>req_url = url, req_proxies = Some [(''http'', u), (''https'', u)],
                req_stream = stream, req_timeout = 120\<rparr>]\<rparr>)) \<and>
   get_request e url None stream s =
     (http e \<lparr>req_url = url, req_proxies = None, req_stream = stream, req_timeout = 120\<rparr>,
      s\<lparr>requests := requests s @
           [\<lparr>req_url = url, req_proxies = None, req_stream = stream, req_timeout = 120\<rparr>]\<rparr>) \<and>
   (\<exists>r. requests (snd (get_request e url proxy_url stream s)) = requests s @ [r] \<and>
        req_timeout r = 120 \<and> fst (get_request e url proxy_url stream s) = http e r)"
  by (simp add: get_request_def set_proxy_def Let_def)

text \<open>C8 at a request through a proxy.\<close>

theorem get_request_proxy_and_timeout_witness:
  "''http://proxy:8080'' \<noteq> [] \<and>
   requests (snd (get_request (example_env ''win32'' registry_only) ''https://example.org/x''
                    (Some ''http://proxy:8080'') (Some True) initial_state)) =
     [\<lparr>req_url = ''https://example.org/x'',
       req_proxies = Some [(''http'', ''http://proxy:8080''), (''https'', ''http://proxy:8080'')],
       req_stream = Some True, req_timeout = 120\<rparr>]"
  using get_request_proxy_and_timeout
          [of "''http://proxy:8080''" "example_env ''win32'' registry_only" "''https://example.org/x''"
              "Some True" initial_state]
  by (simp add: initial_state_def)

subsection \<open>The acquired driver\<close>

lemma extract_zip_success:
  "extract_zip e s = (Inr (), s') \<Longrightarrow>
   self_driver s' = Some ''chromedriver.exe'' \<and> files s' ''chromedriver.exe'' \<noteq> None \<and>
   modes s' = modes s"
  by (auto simp: extract_zip_def Let_def split: option.splits)

lemma set_execusion_permission_success:
  "set_execusion_permission s = (Inr (), s') \<Longrightarrow> self_driver s = Some p \<Longrightarrow>
   s' = s\<lparr>modes := (modes s)(p \<mapsto> 7 * 64 + 5 * 8 + 5)\<rparr>"
  by (auto simp: set_execusion_permission_def split: option.splits if_splits)

lemma download_success:
  "download_chrome_web_driver e proxy_url s = (Inr (), s') \<Longrightarrow>
   self_driver s' = Some ''chromedriver.exe'' \<and> files s' ''chromedriver.exe'' \<noteq> None \<and>
   modes s' ''chromedriver.exe'' = Some (7 * 64 + 5 * 8 + 5)"
  unfolding download_chrome_web_driver_def
  by (auto simp: Let_def split: prod.splits sum.splits dest!: extract_zip_success
           dest: set_execusion_permission_success)

text \<open>
  C10. On every successful acquisition, whatever the host, the probed version, the release
  identifier and the proxy are, the driver recorded in the object and written into the
  working directory has the fixed name \<open>chromedriver.exe\<close>, and the mode given to
  \<^verbatim>\<open>os.chmod\<close> for it is 0o755 (7 * 64 + 5 * 8 + 5): read, write and execute for the owner,
  read and execute for the group and the others.
\<close>

theorem acquired_driver_name_and_mode:
  "setup_chrome_web_driver e proxy_url s = (Inr (), s') \<Longrightarrow>
   self_driver s' = Some ''chromedriver.exe'' \<and> files s' ''chromedriver.exe'' \<noteq> None \<and>
   modes s' ''chromedriver.exe'' = Some (7 * 64 + 5 * 8 + 5)"
  by (auto simp: setup_chrome_web_driver_def dest: download_success split: if_splits)

lemmas acquire_eval =
  setup_chrome_web_driver_def system_requirements_def download_chrome_web_driver_def
  probe_registry_only major_version_of_def re_search_digits_def group_def
  is_digit_def py_strip_def py_isspace_def get_request_def set_proxy_def base_url_def
  extract_zip_def set_execusion_permission_def example_env_def example_http_def
  initial_state_def Let_def

text \<open>C10 on the example host, where the acquisition succeeds.\<close>

theorem acquired_driver_name_and_mode_witness:
  "fst (setup_chrome_web_driver (example_env ''win32'' registry_only) None initial_state) = Inr () \<and>
   self_driver (snd (setup_chrome_web_driver (example_env ''win32'' registry_only) None initial_state))
     = Some ''chromedriver.exe'' \<and>
   files (snd (setup_chrome_web_driver (example_env ''win32'' registry_only) None initial_state))
     ''chromedriver.exe'' = Some ''MZ'' \<and>
   modes (snd (setup_chrome_web_driver (example_env ''win32'' registry_only) None initial_state))
     ''chromedriver.exe'' = Some 493"
proof -
  let ?run = "setup_chrome_web_driver (example_env ''win32'' registry_only) None initial_state"
  have ok: "fst ?run = Inr ()"
    by (simp add: acquire_eval)
  then have h: "?run = (Inr (), snd ?run)"
    by (metis prod.collapse)
  have content: "files (snd ?run) ''chromedriver.exe'' = Some ''MZ''"
    by (simp add: acquire_eval)
  from ok content acquired_driver_name_and_mode [OF h]
  show ?thesis by simp
qed

end
